theory Spec2Isabelle
  imports Complex_Main "HOL-Library.Word"
begin

section \<open>Error types (errors/index.ts)\<close>

text \<open>
  The SDK's errors are a class hierarchy below \<^verbatim>\<open>AllscreenshotsError\<close>. An instance is
  modelled as one record: \<open>kind\<close> is the class of the instance (what
  \<^verbatim>\<open>instanceof\<close> and \<^verbatim>\<open>this.name\<close> tell apart; \<open>Unknown\<close> is the base class itself),
  the next three fields are those of the base class, and \<open>retryAfter\<close> and
  \<open>validationErrors\<close> are the extra fields of \<^verbatim>\<open>RateLimitError\<close> and
  \<^verbatim>\<open>ValidationError\<close> (\<open>None\<close>, that is undefined, on every other class).
  Numbers are integers here: status codes and whole seconds.
\<close>

datatype error_kind =
  Unknown | Authentication | Validation | NotFound | RateLimited
  | QuotaExceeded | Server | Network | Timeout

record sdk_error =
  kind :: error_kind
  message :: string
  statusCode :: "int option"
  errorCode :: "string option"
  retryAfter :: "int option"
  validationErrors :: "(string \<times> string) list option"

text \<open>
  The constructors, each calling \<^verbatim>\<open>super(message, statusCode, errorCode)\<close> and then
  setting its own name and extra field. The default messages of the source apply only when
  the argument is undefined; every call below passes a string.
\<close>

definition AllscreenshotsError :: "string \<Rightarrow> int option \<Rightarrow> string option \<Rightarrow> sdk_error" where
  "AllscreenshotsError msg sc ec =
     \<lparr>kind = Unknown, message = msg, statusCode = sc, errorCode = ec,
      retryAfter = None, validationErrors = None\<rparr>"

definition AuthenticationError :: "string \<Rightarrow> sdk_error" where
  "AuthenticationError msg =
     (AllscreenshotsError msg (Some 401) (Some ''AUTHENTICATION_ERROR''))\<lparr>kind := Authentication\<rparr>"

definition ValidationError :: "string \<Rightarrow> (string \<times> string) list option \<Rightarrow> sdk_error" where
  "ValidationError msg ves =
     (AllscreenshotsError msg (Some 400) (Some ''VALIDATION_ERROR''))
       \<lparr>kind := Validation, validationErrors := ves\<rparr>"

definition NotFoundError :: "string \<Rightarrow> sdk_error" where
  "NotFoundError msg =
     (AllscreenshotsError msg (Some 404) (Some ''NOT_FOUND''))\<lparr>kind := NotFound\<rparr>"

definition RateLimitError :: "string \<Rightarrow> int option \<Rightarrow> sdk_error" where
  "RateLimitError msg ra =
     (AllscreenshotsError msg (Some 429) (Some ''RATE_LIMIT_EXCEEDED''))
       \<lparr>kind := RateLimited, retryAfter := ra\<rparr>"

definition QuotaExceededError :: "string \<Rightarrow> sdk_error" where
  "QuotaExceededError msg =
     (AllscreenshotsError msg (Some 402) (Some ''QUOTA_EXCEEDED''))\<lparr>kind := QuotaExceeded\<rparr>"

definition ServerError :: "string \<Rightarrow> int \<Rightarrow> sdk_error" where
  "ServerError msg sc =
     (AllscreenshotsError msg (Some sc) (Some ''SERVER_ERROR''))\<lparr>kind := Server\<rparr>"

definition NetworkError :: "string \<Rightarrow> sdk_error" where
  "NetworkError msg =
     (AllscreenshotsError msg None (Some ''NETWORK_ERROR''))\<lparr>kind := Network\<rparr>"

definition TimeoutError :: "string \<Rightarrow> sdk_error" where
  "TimeoutError msg =
     (AllscreenshotsError msg None (Some ''TIMEOUT_ERROR''))\<lparr>kind := Timeout\<rparr>"

subsection \<open>Numbers in template literals\<close>

text \<open>The decimal text of an integer, as a template literal prints it.\<close>

definition digit_char :: "nat \<Rightarrow> char" where
  "digit_char d = ''0123456789'' ! d"

fun show_nat :: "nat \<Rightarrow> string" where
  "show_nat n = (if n < 10 then [digit_char n] else show_nat (n div 10) @ [digit_char (n mod 10)])"

declare show_nat.simps [simp del]

definition show_int :: "int \<Rightarrow> string" where
  "show_int i = (if i < 0 then CHR ''-'' # show_nat (nat (- i)) else show_nat (nat i))"

subsection \<open>The error response body and \<^verbatim>\<open>parseApiError\<close>\<close>

text \<open>
  \<^verbatim>\<open>interface ApiErrorResponse\<close>: every field is optional. The fields are prefixed with
  \<open>body_\<close> because \<open>sdk_error\<close> has fields of the same names.
\<close>

record api_error_response =
  body_error :: "string option"
  body_message :: "string option"
  body_errorCode :: "string option"
  body_statusCode :: "int option"
  body_validationErrors :: "(string \<times> string) list option"

text \<open>The declared type of the body: \<^verbatim>\<open>ApiErrorResponse | string | null\<close>.\<close>

datatype api_body = BNull | BString string | BObject api_error_response

text \<open>
  JavaScript truthiness of an optional string: defined and not the empty string.
  \<^verbatim>\<open>a || d\<close> for an optional string \<open>a\<close> and a string \<open>d\<close> is \<open>a\<close> when it is
  truthy, else \<open>d\<close>.
\<close>

fun truthy :: "string option \<Rightarrow> bool" where
  "truthy None = False"
| "truthy (Some s) = (s \<noteq> [])"

fun or_else :: "string option \<Rightarrow> string \<Rightarrow> string" where
  "or_else None d = d"
| "or_else (Some s) d = (if s = [] then d else s)"

text \<open>
  \<^verbatim>\<open>typeof body === 'string' ? body : body?.message || body?.error || `HTTP ${statusCode} error`\<close>
\<close>

fun error_message :: "int \<Rightarrow> api_body \<Rightarrow> string" where
  "error_message status (BString s) = s"
| "error_message status BNull = ''HTTP '' @ show_int status @ '' error''"
| "error_message status (BObject b) =
     or_else (body_message b) (or_else (body_error b) (''HTTP '' @ show_int status @ '' error''))"

text \<open>\<^verbatim>\<open>typeof body === 'object' ? body?.errorCode : undefined\<close> (null is an object, with no field).\<close>

fun error_code_of :: "api_body \<Rightarrow> string option" where
  "error_code_of (BObject b) = body_errorCode b"
| "error_code_of _ = None"

text \<open>\<^verbatim>\<open>typeof body === 'object' ? body?.validationErrors : undefined\<close>\<close>

fun validation_errors_of :: "api_body \<Rightarrow> (string \<times> string) list option" where
  "validation_errors_of (BObject b) = body_validationErrors b"
| "validation_errors_of _ = None"

text \<open>The \<^verbatim>\<open>switch (statusCode)\<close>, case by case in the source's order.\<close>

definition parseApiError :: "int \<Rightarrow> api_body \<Rightarrow> int option \<Rightarrow> sdk_error" where
  "parseApiError status body retryAfter' =
     (let msg = error_message status body;
          code = error_code_of body
      in if status = 400 then ValidationError msg (validation_errors_of body)
         else if status = 401 \<or> status = 403 then AuthenticationError msg
         else if status = 402 then QuotaExceededError msg
         else if status = 404 then NotFoundError msg
         else if status = 429 then RateLimitError msg retryAfter'
         else if status = 500 \<or> status = 502 \<or> status = 503 \<or> status = 504
           then ServerError msg status
         else AllscreenshotsError msg (Some status) code)"

section \<open>The client (client.ts)\<close>

subsection \<open>Configuration, builder and constructor\<close>

text \<open>
  \<^verbatim>\<open>interface RetryConfig\<close> is declared in utils/retry.ts; its field names are those the
  builder's callers write. Delays, multiplier and jitter factor are numbers, modelled as
  exact rationals. \<open>partial_retry_config\<close> is \<^verbatim>\<open>Partial<RetryConfig>\<close>.
\<close>

record retry_config =
  maxRetries :: nat
  initialDelayMs :: rat
  maxDelayMs :: rat
  backoffMultiplier :: rat
  jitterFactor :: rat

record partial_retry_config =
  p_maxRetries :: "nat option"
  p_initialDelayMs :: "rat option"
  p_maxDelayMs :: "rat option"
  p_backoffMultiplier :: "rat option"
  p_jitterFactor :: "rat option"

text \<open>\<^verbatim>\<open>interface AllscreenshotsConfig\<close>; the prefix tells its fields from the client's.\<close>

record allscreenshots_config =
  cfg_apiKey :: "string option"
  cfg_baseUrl :: "string option"
  cfg_timeout :: "int option"
  cfg_retry :: "partial_retry_config option"
  cfg_autoRetry :: "bool option"

text \<open>The private fields of \<^verbatim>\<open>class AllscreenshotsClient\<close>.\<close>

record client =
  apiKey :: string
  baseUrl :: string
  timeout :: int
  retryConfig :: retry_config
  autoRetry :: bool

definition DEFAULT_CONFIG_baseUrl :: string where
  "DEFAULT_CONFIG_baseUrl = ''https://api.allscreenshots.com''"

definition DEFAULT_CONFIG_timeout :: int where
  "DEFAULT_CONFIG_timeout = 60000"

definition DEFAULT_CONFIG_autoRetry :: bool where
  "DEFAULT_CONFIG_autoRetry = True"

text \<open>\<^verbatim>\<open>a ?? d\<close>: the default only for an undefined value.\<close>

fun nullish :: "'a option \<Rightarrow> 'a \<Rightarrow> 'a" where
  "nullish None d = d"
| "nullish (Some v) d = v"

text \<open>
  \<^verbatim>\<open>{ ...DEFAULT_RETRY_CONFIG, ...config.retry }\<close>: a key of the partial configuration
  replaces the default's. \<^verbatim>\<open>DEFAULT_RETRY_CONFIG\<close> is a constant of utils/retry.ts and
  is a parameter here.
\<close>

definition merge_retry :: "retry_config \<Rightarrow> partial_retry_config option \<Rightarrow> retry_config" where
  "merge_retry d r =
     (case r of
        None \<Rightarrow> d
      | Some p \<Rightarrow>
          \<lparr>maxRetries = nullish (p_maxRetries p) (maxRetries d),
           initialDelayMs = nullish (p_initialDelayMs p) (initialDelayMs d),
           maxDelayMs = nullish (p_maxDelayMs p) (maxDelayMs d),
           backoffMultiplier = nullish (p_backoffMultiplier p) (backoffMultiplier d),
           jitterFactor = nullish (p_jitterFactor p) (jitterFactor d)\<rparr>)"

definition API_KEY_REQUIRED :: string where
  "API_KEY_REQUIRED =
     ''API key is required. Provide it via config or set ALLSCREENSHOTS_API_KEY environment variable.''"

text \<open>
  The constructor. \<open>env\<close> is \<^verbatim>\<open>process.env.ALLSCREENSHOTS_API_KEY\<close>; the result is
  \<open>Inl\<close> of the error it throws or \<open>Inr\<close> of the client.
  \<^verbatim>\<open>config.apiKey || process.env.ALLSCREENSHOTS_API_KEY || ''\<close>, then
  \<^verbatim>\<open>if (!this.apiKey) throw new AuthenticationError(...)\<close>.
\<close>

definition new_AllscreenshotsClient ::
  "retry_config \<Rightarrow> string option \<Rightarrow> allscreenshots_config \<Rightarrow> sdk_error + client" where
  "new_AllscreenshotsClient DEFAULT_RETRY_CONFIG env config =
     (let key = or_else (cfg_apiKey config) (or_else env [])
      in if key = [] then Inl (AuthenticationError API_KEY_REQUIRED)
         else Inr \<lparr>apiKey = key,
                   baseUrl = or_else (cfg_baseUrl config) DEFAULT_CONFIG_baseUrl,
                   timeout = nullish (cfg_timeout config) DEFAULT_CONFIG_timeout,
                   retryConfig = merge_retry DEFAULT_RETRY_CONFIG (cfg_retry config),
                   autoRetry = nullish (cfg_autoRetry config) DEFAULT_CONFIG_autoRetry\<rparr>)"

text \<open>
  The builder holds a configuration, initially \<^verbatim>\<open>{}\<close>, and each method sets one key.
  \<^verbatim>\<open>baseUrl.replace(/\/+$/, '')\<close> removes the run of slashes at the end of the string.
\<close>

definition empty_config :: allscreenshots_config where
  "empty_config =
     \<lparr>cfg_apiKey = None, cfg_baseUrl = None, cfg_timeout = None, cfg_retry = None,
      cfg_autoRetry = None\<rparr>"

definition strip_trailing_slashes :: "string \<Rightarrow> string" where
  "strip_trailing_slashes s = rev (dropWhile (\<lambda>c. c = CHR ''/'') (rev s))"

definition withApiKey :: "string \<Rightarrow> allscreenshots_config \<Rightarrow> allscreenshots_config" where
  "withApiKey k config = config\<lparr>cfg_apiKey := Some k\<rparr>"

definition withBaseUrl :: "string \<Rightarrow> allscreenshots_config \<Rightarrow> allscreenshots_config" where
  "withBaseUrl u config = config\<lparr>cfg_baseUrl := Some (strip_trailing_slashes u)\<rparr>"

definition withTimeout :: "int \<Rightarrow> allscreenshots_config \<Rightarrow> allscreenshots_config" where
  "withTimeout t config = config\<lparr>cfg_timeout := Some t\<rparr>"

definition builder_withRetry ::
  "partial_retry_config \<Rightarrow> allscreenshots_config \<Rightarrow> allscreenshots_config" where
  "builder_withRetry r config = config\<lparr>cfg_retry := Some r\<rparr>"

definition withAutoRetry :: "bool \<Rightarrow> allscreenshots_config \<Rightarrow> allscreenshots_config" where
  "withAutoRetry enabled config = config\<lparr>cfg_autoRetry := Some enabled\<rparr>"

definition build :: "retry_config \<Rightarrow> string option \<Rightarrow> allscreenshots_config \<Rightarrow> sdk_error + client" where
  "build DEFAULT_RETRY_CONFIG env config = new_AllscreenshotsClient DEFAULT_RETRY_CONFIG env config"

subsection \<open>The request executor\<close>

text \<open>
  \<^verbatim>\<open>options\<close> of \<^verbatim>\<open>request\<close>. The body is a request object or absent (every endpoint
  method passes one or the other, and an object is truthy). A query value of \<open>None\<close> is an
  entry whose value is undefined.
\<close>

datatype query_value = QString string | QNumber int | QBoolean bool

record 'b request_options =
  opt_body :: "'b option"
  opt_query :: "(string \<times> query_value option) list option"
  opt_returnBinary :: "bool option"

text \<open>\<^verbatim>\<open>String(value)\<close> of a query value.\<close>

fun String_of :: "query_value \<Rightarrow> string" where
  "String_of (QString s) = s"
| "String_of (QNumber n) = show_int n"
| "String_of (QBoolean b) = (if b then ''true'' else ''false'')"

text \<open>
  The URL is kept as the string given to \<^verbatim>\<open>new URL\<close> and the search parameters set on
  it; parsing and percent-encoding are the platform's. \<^verbatim>\<open>searchParams.set\<close> replaces
  the value of a key that is there and appends a new key.
\<close>

record url =
  href :: string
  searchParams :: "(string \<times> string) list"

fun searchParams_set :: "string \<Rightarrow> string \<Rightarrow> (string \<times> string) list \<Rightarrow> (string \<times> string) list" where
  "searchParams_set k v [] = [(k, v)]"
| "searchParams_set k v ((k', v') # ps) =
     (if k' = k then (k, v) # filter (\<lambda>p. fst p \<noteq> k) ps else (k', v') # searchParams_set k v ps)"

fun set_query :: "(string \<times> query_value option) list \<Rightarrow> (string \<times> string) list \<Rightarrow> (string \<times> string) list" where
  "set_query [] ps = ps"
| "set_query ((key, None) # es) ps = set_query es ps"
| "set_query ((key, Some v) # es) ps = set_query es (searchParams_set key (String_of v) ps)"

definition build_url :: "client \<Rightarrow> string \<Rightarrow> 'b request_options \<Rightarrow> url" where
  "build_url c path options =
     \<lparr>href = baseUrl c @ path,
      searchParams = (case opt_query options of None \<Rightarrow> [] | Some q \<Rightarrow> set_query q [])\<rparr>"

text \<open>
  The second argument of \<^verbatim>\<open>fetch\<close>: method, the three headers of the object literal, and
  \<^verbatim>\<open>options.body ? JSON.stringify(options.body) : undefined\<close>.
\<close>

record fetch_init =
  init_method :: string
  init_headers :: "(string \<times> string) list"
  init_body :: "string option"

definition request_headers :: "client \<Rightarrow> 'b request_options \<Rightarrow> (string \<times> string) list" where
  "request_headers c options =
     [(''X-API-Key'', apiKey c),
      (''Content-Type'', ''application/json''),
      (''Accept'', if opt_returnBinary options = Some True then ''image/*,application/pdf''
                   else ''application/json'')]"

definition request_init ::
  "('b \<Rightarrow> string) \<Rightarrow> client \<Rightarrow> string \<Rightarrow> 'b request_options \<Rightarrow> fetch_init" where
  "request_init JSON_stringify c method options =
     \<lparr>init_method = method,
      init_headers = request_headers c options,
      init_body = map_option JSON_stringify (opt_body options)\<rparr>"

text \<open>
  What a \<^verbatim>\<open>catch\<close> can receive: an \<^verbatim>\<open>AllscreenshotsError\<close>, another \<^verbatim>\<open>Error\<close> with
  its name and message, or a value that is no \<^verbatim>\<open>Error\<close>.
\<close>

datatype thrown = ThrownSdk sdk_error | ThrownError string string | ThrownValue

text \<open>
  The response, as far as the executor reads it: \<^verbatim>\<open>ok\<close>, \<^verbatim>\<open>status\<close>, what
  \<^verbatim>\<open>text()\<close> and \<^verbatim>\<open>arrayBuffer()\<close> settle to, and \<^verbatim>\<open>headers.get('Retry-After')\<close>.
  \<^verbatim>\<open>fetch\<close> itself resolves to a response or rejects. When the abort controller fires
  (only the timeout timer aborts it) \<^verbatim>\<open>fetch\<close> rejects with an \<^verbatim>\<open>Error\<close> named
  \<^verbatim>\<open>AbortError\<close>; other transport failures reject with an error of another name.
\<close>

record http_response =
  resp_ok :: bool
  resp_status :: int
  resp_text :: "thrown + string"
  resp_arrayBuffer :: "thrown + 8 word list"
  resp_retryAfter :: "string option"

datatype fetch_result = Resolved http_response | Rejected thrown

text \<open>
  The platform's JSON and number parsing, over a type \<open>'j\<close> of parsed values:
  \<^verbatim>\<open>JSON.parse\<close> (\<open>None\<close> when it throws), \<^verbatim>\<open>null\<close>, truthiness, the unchecked
  cast \<^verbatim>\<open>as ApiErrorResponse\<close> read as a body, and \<^verbatim>\<open>parseInt(s, 10)\<close> (\<open>None\<close> is
  NaN, which this model does not tell from an absent hint).
\<close>

record 'j platform =
  JSON_parse :: "string \<Rightarrow> 'j option"
  js_null :: 'j
  js_truthy :: "'j \<Rightarrow> bool"
  as_ApiErrorResponse :: "'j \<Rightarrow> api_body"
  parseInt10 :: "string \<Rightarrow> int option"

datatype 'j payload = Structured 'j | Binary "8 word list"

text \<open>\<^verbatim>\<open>retryAfter ? parseInt(retryAfter, 10) : undefined\<close>\<close>

definition retry_after_hint :: "'j platform \<Rightarrow> http_response \<Rightarrow> int option" where
  "retry_after_hint P response =
     (case resp_retryAfter response of
        None \<Rightarrow> None
      | Some h \<Rightarrow> if h = [] then None else parseInt10 P h)"

text \<open>
  The binary branch of a failed response: the body text (\<^verbatim>\<open>null\<close> when reading fails), its
  parse when it has one, and \<^verbatim>\<open>parsed || errorBody\<close> as the body of the error.
\<close>

definition binary_error_body :: "'j platform \<Rightarrow> http_response \<Rightarrow> api_body" where
  "binary_error_body P response =
     (let errorBody = (case resp_text response of Inl _ \<Rightarrow> None | Inr t \<Rightarrow> Some t);
          parsed = (case errorBody of
                      None \<Rightarrow> js_null P
                    | Some t \<Rightarrow> if t = [] then js_null P
                               else (case JSON_parse P t of None \<Rightarrow> js_null P | Some j \<Rightarrow> j))
      in if js_truthy P parsed then as_ApiErrorResponse P parsed
         else (case errorBody of None \<Rightarrow> BNull | Some t \<Rightarrow> BString t))"

text \<open>The \<^verbatim>\<open>try\<close> block after \<^verbatim>\<open>fetch\<close> has settled: what it returns or throws.\<close>

definition try_block :: "'j platform \<Rightarrow> 'b request_options \<Rightarrow> fetch_result \<Rightarrow> thrown + 'j payload" where
  "try_block P options settled =
     (case settled of
        Rejected t \<Rightarrow> Inl t
      | Resolved response \<Rightarrow>
          if opt_returnBinary options = Some True then
            (if \<not> resp_ok response then
               Inl (ThrownSdk (parseApiError (resp_status response) (binary_error_body P response)
                      (retry_after_hint P response)))
             else (case resp_arrayBuffer response of
                     Inl t \<Rightarrow> Inl t
                   | Inr buffer \<Rightarrow> Inr (Binary buffer)))
          else
            (case resp_text response of
               Inl t \<Rightarrow> Inl t
             | Inr txt \<Rightarrow>
                 (let body = (if txt = [] then js_null P
                              else (case JSON_parse P txt of None \<Rightarrow> js_null P | Some j \<Rightarrow> j))
                  in if \<not> resp_ok response then
                       Inl (ThrownSdk (parseApiError (resp_status response)
                              (as_ApiErrorResponse P body) (retry_after_hint P response)))
                     else Inr (Structured body))))"

text \<open>\<^verbatim>\<open>error.message.includes('fetch')\<close>\<close>

fun starts_with :: "string \<Rightarrow> string \<Rightarrow> bool" where
  "starts_with s [] = True"
| "starts_with [] (c # cs) = False"
| "starts_with (d # ds) (c # cs) = (d = c \<and> starts_with ds cs)"

fun str_includes :: "string \<Rightarrow> string \<Rightarrow> bool" where
  "str_includes [] sub = (sub = [])"
| "str_includes (d # ds) sub = (starts_with (d # ds) sub \<or> str_includes ds sub)"

text \<open>The \<^verbatim>\<open>catch\<close> block: what is thrown to the caller for what was caught.\<close>

fun caught :: "client \<Rightarrow> thrown \<Rightarrow> sdk_error" where
  "caught c (ThrownSdk e) = e"
| "caught c (ThrownError name msg) =
     (if name = ''AbortError'' then TimeoutError (''Request timed out after '' @ show_int (timeout c) @ ''ms'')
      else if str_includes msg ''fetch'' then NetworkError (''Network error: '' @ msg)
      else NetworkError ''Unknown network error occurred'')"
| "caught c ThrownValue = NetworkError ''Unknown network error occurred''"

text \<open>
  Two tests on a caught value: \<^verbatim>\<open>error instanceof AllscreenshotsError\<close>, and being the
  rejection of a \<^verbatim>\<open>fetch\<close> that the abort signal cancelled (an \<^verbatim>\<open>Error\<close> whose name is
  \<^verbatim>\<open>AbortError\<close>).
\<close>

fun is_sdk_error :: "thrown \<Rightarrow> bool" where
  "is_sdk_error (ThrownSdk e) = True"
| "is_sdk_error _ = False"

fun aborted :: "thrown \<Rightarrow> bool" where
  "aborted (ThrownError name msg) = (name = ''AbortError'')"
| "aborted _ = False"

text \<open>
  One attempt, \<^verbatim>\<open>execute\<close>: build the URL and the request, let \<^verbatim>\<open>fetch\<close> settle, run
  the \<^verbatim>\<open>try\<close> block and pass what it throws through the \<^verbatim>\<open>catch\<close> block. The base
  address and path are taken to form a URL that \<^verbatim>\<open>new URL\<close> accepts, and
  \<^verbatim>\<open>JSON.stringify\<close> to return for the request objects it is given.
\<close>

definition execute ::
  "'j platform \<Rightarrow> ('b \<Rightarrow> string) \<Rightarrow> (url \<Rightarrow> fetch_init \<Rightarrow> fetch_result) \<Rightarrow> client \<Rightarrow> string \<Rightarrow> string
     \<Rightarrow> 'b request_options \<Rightarrow> sdk_error + 'j payload" where
  "execute P JSON_stringify fetch c method path options =
     (case try_block P options
             (fetch (build_url c path options) (request_init JSON_stringify c method options)) of
        Inl t \<Rightarrow> Inl (caught c t)
      | Inr v \<Rightarrow> Inr v)"

section \<open>Backoff and retry (utils/retry.ts)\<close>

text \<open>
  utils/retry.ts is not among the sources: the repository holds its test file and its
  caller only. The definitions of this section, up to \<open>withRetry\<close>, follow the design
  document instead: sections 4.1 (retryability), 4.2 (backoff calculator) and 4.4 (retry
  controller).
\<close>

text \<open>
  Modelled from the spec: the kinds that \<^verbatim>\<open>isRetryableError\<close> of utils/retry.ts, which
  is missing, accepts. "rate_limited, server, network, and timeout are retryable; validation, authentication, not_found,
  quota_exceeded, and unknown are not."
\<close>

fun retryable_kind :: "error_kind \<Rightarrow> bool" where
  "retryable_kind RateLimited = True"
| "retryable_kind Server = True"
| "retryable_kind Network = True"
| "retryable_kind Timeout = True"
| "retryable_kind Validation = False"
| "retryable_kind Authentication = False"
| "retryable_kind NotFound = False"
| "retryable_kind QuotaExceeded = False"
| "retryable_kind Unknown = False"

text \<open>
  Modelled from the spec: \<^verbatim>\<open>isRetryableError\<close> of utils/retry.ts is missing. An error is
  retryable when its kind is.
\<close>

definition isRetryableError :: "sdk_error \<Rightarrow> bool" where
  "isRetryableError e = retryable_kind (kind e)"

text \<open>
  Modelled from the spec: the random draw of \<^verbatim>\<open>calculateDelay\<close> (utils/retry.ts), which
  is missing. The draw is an argument: \<open>u\<close> is the sample, between 0 and 1, and
  \<open>uniform_random lo hi u\<close> is the point of the interval from \<open>lo\<close> to \<open>hi\<close> it selects.
\<close>

definition uniform_random :: "rat \<Rightarrow> rat \<Rightarrow> rat \<Rightarrow> rat" where
  "uniform_random lo hi u = lo + u * (hi - lo)"

text \<open>
  Modelled from the spec: \<^verbatim>\<open>calculateDelay\<close> of utils/retry.ts is missing.
  "base = initial_delay * multiplier^attempt_index, capped at max_delay. Final delay = base +
  uniform_random(-jitter_factor * base, +jitter_factor * base), clamped to be non-negative."
\<close>

definition calculateDelay :: "nat \<Rightarrow> retry_config \<Rightarrow> rat \<Rightarrow> rat" where
  "calculateDelay attempt config u =
     (let base = min (initialDelayMs config * backoffMultiplier config ^ attempt) (maxDelayMs config)
      in max 0 (base + uniform_random (- (jitterFactor config * base)) (jitterFactor config * base) u))"

text \<open>
  Modelled from the spec: the delay computation of \<^verbatim>\<open>withRetry\<close> (utils/retry.ts) is
  missing. "When the failure is rate_limited and carries a retry-after hint (seconds), the
  calculated delay is replaced by hint_seconds * 1000 milliseconds, bypassing exponential
  growth and jitter."
\<close>

definition retry_delay :: "sdk_error \<Rightarrow> nat \<Rightarrow> retry_config \<Rightarrow> rat \<Rightarrow> rat" where
  "retry_delay e attempt config u =
     (case retryAfter e of
        Some h \<Rightarrow> if kind e = RateLimited then of_int h * 1000 else calculateDelay attempt config u
      | None \<Rightarrow> calculateDelay attempt config u)"

text \<open>
  Modelled from the spec: the result type of \<^verbatim>\<open>withRetry\<close>, with the effects of the
  call made explicit. What one call of the retry controller did: the value returned or the error thrown to the
  caller, how many times the operation was invoked, and the waits between the invocations,
  in milliseconds and in order.
\<close>

record 'a run =
  outcome :: "sdk_error + 'a"
  invocations :: nat
  waits :: "rat list"

text \<open>
  Modelled from the spec: the loop of \<^verbatim>\<open>withRetry\<close> (utils/retry.ts), which is missing.
  The operation is a thunk whose result may differ from call to call: \<open>fn k\<close> is what its invocation at
  attempt index \<open>k\<close> gives, \<open>Inl\<close> a failure and \<open>Inr\<close> a value; \<open>rnd k\<close> is the random
  sample of the wait after attempt \<open>k\<close>. State \<^emph>\<open>attempting\<close> at index \<open>attempt\<close> is a call
  of \<open>retry_from\<close>: "invoke the operation. On success, transition to succeeded and return
  the value. On failure: if not retryable, or if attempt index has reached the configured
  maximum retries, transition to failed-terminal and surface the original error unchanged.
  Otherwise transition to waiting: compute the delay, suspend for that duration, increment
  the attempt index, and return to attempting." The initial state is attempting with
  attempt index 0.
\<close>

function retry_from :: "(nat \<Rightarrow> sdk_error + 'a) \<Rightarrow> retry_config \<Rightarrow> (nat \<Rightarrow> rat) \<Rightarrow> nat \<Rightarrow> 'a run" where
  "retry_from fn config rnd attempt =
     (case fn attempt of
        Inr v \<Rightarrow> \<lparr>outcome = Inr v, invocations = 1, waits = []\<rparr>
      | Inl e \<Rightarrow>
          if \<not> isRetryableError e \<or> maxRetries config \<le> attempt
          then \<lparr>outcome = Inl e, invocations = 1, waits = []\<rparr>
          else (let r = retry_from fn config rnd (Suc attempt)
                in \<lparr>outcome = outcome r, invocations = Suc (invocations r),
                    waits = retry_delay e attempt config (rnd attempt) # waits r\<rparr>))"
  by pat_completeness auto
termination
  by (relation "measure (\<lambda>(fn, config, rnd, attempt). maxRetries config - attempt)") auto

declare retry_from.simps [simp del]

text \<open>
  Modelled from the spec: \<^verbatim>\<open>withRetry\<close> of utils/retry.ts is missing. "Initial state is
  attempting with attempt index 0."
\<close>

definition withRetry :: "(nat \<Rightarrow> sdk_error + 'a) \<Rightarrow> retry_config \<Rightarrow> (nat \<Rightarrow> rat) \<Rightarrow> 'a run" where
  "withRetry fn config rnd = retry_from fn config rnd 0"

subsection \<open>\<^verbatim>\<open>request\<close>: with or without the retry controller\<close>

text \<open>
  \<^verbatim>\<open>if (this.autoRetry) return withRetry(execute, this.retryConfig); return execute();\<close>
  \<open>fetch k\<close> is how the network answers the attempt of index \<open>k\<close>.
\<close>

definition request ::
  "'j platform \<Rightarrow> ('b \<Rightarrow> string) \<Rightarrow> (nat \<Rightarrow> url \<Rightarrow> fetch_init \<Rightarrow> fetch_result) \<Rightarrow> (nat \<Rightarrow> rat)
     \<Rightarrow> client \<Rightarrow> string \<Rightarrow> string \<Rightarrow> 'b request_options \<Rightarrow> 'j payload run" where
  "request P JSON_stringify fetch rnd c method path options =
     (if autoRetry c
      then withRetry (\<lambda>k. execute P JSON_stringify (fetch k) c method path options) (retryConfig c) rnd
      else \<lparr>outcome = execute P JSON_stringify (fetch 0) c method path options,
            invocations = 1, waits = []\<rparr>)"

section \<open>The design document's wording and example values\<close>

text \<open>
  The message rule as the design document words it, for comparison with \<open>error_message\<close>:
  the body itself when it is a string, else the body's message field, else its error field,
  else the text composed from the status code. A field counts when it is present.
\<close>

fun spec_error_message :: "int \<Rightarrow> api_body \<Rightarrow> string" where
  "spec_error_message status (BString s) = s"
| "spec_error_message status BNull = ''HTTP '' @ show_int status @ '' error''"
| "spec_error_message status (BObject b) =
     (case body_message b of
        Some m \<Rightarrow> m
      | None \<Rightarrow> (case body_error b of
                  Some e \<Rightarrow> e
                | None \<Rightarrow> ''HTTP '' @ show_int status @ '' error''))"

text \<open>
  Example values: the body \<^verbatim>\<open>{ message: m }\<close> of the classifier's tests, the retry
  configuration of the README's retry section, the client of the request tests
  (\<^verbatim>\<open>{ apiKey: 'test-key', autoRetry: false }\<close>), options with nothing set, and a
  platform that parses nothing.
\<close>

definition message_body :: "string \<Rightarrow> api_body" where
  "message_body m =
     BObject \<lparr>body_error = None, body_message = Some m, body_errorCode = None,
              body_statusCode = None, body_validationErrors = None\<rparr>"

definition example_retry_config :: retry_config where
  "example_retry_config =
     \<lparr>maxRetries = 5, initialDelayMs = 1000, maxDelayMs = 30000, backoffMultiplier = 2,
      jitterFactor = 1 / 10\<rparr>"

definition test_client :: client where
  "test_client =
     \<lparr>apiKey = ''test-key'', baseUrl = DEFAULT_CONFIG_baseUrl, timeout = 60000,
      retryConfig = example_retry_config, autoRetry = False\<rparr>"

definition no_options :: "string request_options" where
  "no_options = \<lparr>opt_body = None, opt_query = None, opt_returnBinary = None\<rparr>"

definition null_platform :: "unit platform" where
  "null_platform =
     \<lparr>JSON_parse = (\<lambda>s. None), js_null = (), js_truthy = (\<lambda>j. False),
      as_ApiErrorResponse = (\<lambda>j. BNull), parseInt10 = (\<lambda>s. None)\<rparr>"

section \<open>Properties\<close>

lemmas error_defs =
  AllscreenshotsError_def AuthenticationError_def ValidationError_def NotFoundError_def
  RateLimitError_def QuotaExceededError_def ServerError_def NetworkError_def TimeoutError_def

subsection \<open>The classifier\<close>

text \<open>
  C1, as amended. For every status code \<open>s\<close>, body \<open>b\<close> and retry-after hint \<open>r\<close>,
  \<open>parseApiError s b r\<close> is one error whose class is fixed by \<open>s\<close> alone, in the order
  400 (validation), 401 or 403 (authentication), 402 (quota exceeded), 404 (not found), 429
  (rate limited), 500, 502, 503 or 504 (server), anything else (unknown). Its message is
  \<open>b\<close> itself when \<open>b\<close> is a string; else the message field of \<open>b\<close> when that is present
  and not empty; else the error field of \<open>b\<close> when that is present and not empty; else
  "HTTP s error". The validation errors of \<open>b\<close> are carried at 400 only, the hint \<open>r\<close> at 429
  only; the status is \<open>s\<close> (401 for 403); the error code is the class's own, and for the
  unknown class the error code of \<open>b\<close>.
\<close>

theorem parseApiError_classifies:
  "kind (parseApiError s b r) =
     (if s = 400 then Validation
      else if s = 401 \<or> s = 403 then Authentication
      else if s = 402 then QuotaExceeded
      else if s = 404 then NotFound
      else if s = 429 then RateLimited
      else if s = 500 \<or> s = 502 \<or> s = 503 \<or> s = 504 then Server
      else Unknown)
   \<and> message (parseApiError s b r) =
     (case b of
        BString t \<Rightarrow> t
      | BNull \<Rightarrow> ''HTTP '' @ show_int s @ '' error''
      | BObject ob \<Rightarrow>
          if truthy (body_message ob) then the (body_message ob)
          else if truthy (body_error ob) then the (body_error ob)
          else ''HTTP '' @ show_int s @ '' error'')
   \<and> validationErrors (parseApiError s b r) =
     (if s = 400 then (case b of BObject ob \<Rightarrow> body_validationErrors ob | _ \<Rightarrow> None) else None)
   \<and> retryAfter (parseApiError s b r) = (if s = 429 then r else None)
   \<and> statusCode (parseApiError s b r) = Some (if s = 403 then 401 else s)
   \<and> errorCode (parseApiError s b r) =
     (if s = 400 then Some ''VALIDATION_ERROR''
      else if s = 401 \<or> s = 403 then Some ''AUTHENTICATION_ERROR''
      else if s = 402 then Some ''QUOTA_EXCEEDED''
      else if s = 404 then Some ''NOT_FOUND''
      else if s = 429 then Some ''RATE_LIMIT_EXCEEDED''
      else if s = 500 \<or> s = 502 \<or> s = 503 \<or> s = 504 then Some ''SERVER_ERROR''
      else (case b of BObject ob \<Rightarrow> body_errorCode ob | _ \<Rightarrow> None))"
proof -
  have msg: "error_message s b =
     (case b of
        BString t \<Rightarrow> t
      | BNull \<Rightarrow> ''HTTP '' @ show_int s @ '' error''
      | BObject ob \<Rightarrow>
          if truthy (body_message ob) then the (body_message ob)
          else if truthy (body_error ob) then the (body_error ob)
          else ''HTTP '' @ show_int s @ '' error'')"
  proof (cases b)
    case (BObject ob)
    then show ?thesis
      by (cases "body_message ob"; cases "body_error ob") simp_all
  qed simp_all
  have code: "error_code_of b = (case b of BObject ob \<Rightarrow> body_errorCode ob | _ \<Rightarrow> None)"
    by (cases b) simp_all
  have ves: "validation_errors_of b = (case b of BObject ob \<Rightarrow> body_validationErrors ob | _ \<Rightarrow> None)"
    by (cases b) simp_all
  have k: "kind (parseApiError s b r) =
     (if s = 400 then Validation
      else if s = 401 \<or> s = 403 then Authentication
      else if s = 402 then QuotaExceeded
      else if s = 404 then NotFound
      else if s = 429 then RateLimited
      else if s = 500 \<or> s = 502 \<or> s = 503 \<or> s = 504 then Server
      else Unknown)"
    by (simp add: parseApiError_def error_defs Let_def)
  have m: "message (parseApiError s b r) = error_message s b"
    by (simp add: parseApiError_def error_defs Let_def)
  have v: "validationErrors (parseApiError s b r) = (if s = 400 then validation_errors_of b else None)"
    by (simp add: parseApiError_def error_defs Let_def)
  have ra: "retryAfter (parseApiError s b r) = (if s = 429 then r else None)"
    by (simp add: parseApiError_def error_defs Let_def)
  have sc: "statusCode (parseApiError s b r) = Some (if s = 403 then 401 else s)"
    by (simp add: parseApiError_def error_defs Let_def)
  have ec: "errorCode (parseApiError s b r) =
     (if s = 400 then Some ''VALIDATION_ERROR''
      else if s = 401 \<or> s = 403 then Some ''AUTHENTICATION_ERROR''
      else if s = 402 then Some ''QUOTA_EXCEEDED''
      else if s = 404 then Some ''NOT_FOUND''
      else if s = 429 then Some ''RATE_LIMIT_EXCEEDED''
      else if s = 500 \<or> s = 502 \<or> s = 503 \<or> s = 504 then Some ''SERVER_ERROR''
      else error_code_of b)"
    by (simp add: parseApiError_def error_defs Let_def)
  show ?thesis
    unfolding k m v ra sc ec msg code ves by simp
qed

text \<open>
  The theorem at the inputs of the classifier's tests: 400 with a message, 429 with a hint
  of 60 seconds, 502 and 500 without a body, and the teapot.
\<close>

theorem parseApiError_classifies_witness:
  "kind (parseApiError 400 (message_body ''Invalid URL'') None) = Validation
   \<and> message (parseApiError 400 (message_body ''Invalid URL'') None) = ''Invalid URL''
   \<and> kind (parseApiError 429 (message_body ''Rate limited'') (Some 60)) = RateLimited
   \<and> retryAfter (parseApiError 429 (message_body ''Rate limited'') (Some 60)) = Some 60
   \<and> kind (parseApiError 502 BNull None) = Server
   \<and> statusCode (parseApiError 502 BNull None) = Some 502
   \<and> message (parseApiError 500 BNull None) = ''HTTP 500 error''
   \<and> kind (parseApiError 418 (message_body ''teapot'') None) = Unknown
   \<and> message (parseApiError 418 (message_body ''teapot'') None) = ''teapot''
   \<and> statusCode (parseApiError 418 (message_body ''teapot'') None) = Some 418"
  using parseApiError_classifies [of 400 "message_body ''Invalid URL''" None]
    parseApiError_classifies [of 429 "message_body ''Rate limited''" "Some 60"]
    parseApiError_classifies [of 502 BNull None]
    parseApiError_classifies [of 500 BNull None]
    parseApiError_classifies [of 418 "message_body ''teapot''" None]
  by (simp add: message_body_def show_int_def show_nat.simps digit_char_def)

text \<open>
  C1 as the design document states it fails on a body whose message field is present and
  empty: the message is then not that field but the error field (or the fallback).
\<close>

theorem parseApiError_empty_message_counterexample:
  "message (parseApiError 400 (BObject \<lparr>body_error = Some ''boom'', body_message = Some [],
       body_errorCode = None, body_statusCode = None, body_validationErrors = None\<rparr>) None) = ''boom''
   \<and> spec_error_message 400 (BObject \<lparr>body_error = Some ''boom'', body_message = Some [],
       body_errorCode = None, body_statusCode = None, body_validationErrors = None\<rparr>) = []"
  by (simp add: parseApiError_def error_defs)

subsection \<open>Backoff\<close>

lemma capped_delay_nonneg:
  assumes "0 \<le> initialDelayMs config" "0 \<le> maxDelayMs config" "0 \<le> backoffMultiplier config"
  shows "0 \<le> min (initialDelayMs config * backoffMultiplier config ^ attempt) (maxDelayMs config)"
  using assms by simp

text \<open>
  C2. For every attempt index \<open>i\<close> and every retry configuration whose jitter factor is 0
  (a configuration has delays and a multiplier that are not negative), the delay is
  \<open>min (initial_delay * multiplier ^ i) max_delay\<close> exactly, whatever the random sample.
\<close>

theorem calculateDelay_without_jitter:
  assumes "jitterFactor config = 0"
    and "0 \<le> initialDelayMs config" and "0 \<le> maxDelayMs config" and "0 \<le> backoffMultiplier config"
  shows "calculateDelay i config u =
         min (initialDelayMs config * backoffMultiplier config ^ i) (maxDelayMs config)"
proof -
  have "0 \<le> min (initialDelayMs config * backoffMultiplier config ^ i) (maxDelayMs config)"
    using assms(2-4) by (rule capped_delay_nonneg)
  then show ?thesis
    using assms(1) by (simp add: calculateDelay_def uniform_random_def Let_def)
qed

text \<open>The delays of the test file: 4000 ms at index 2, and the cap at index 10.\<close>

theorem calculateDelay_without_jitter_witness:
  "calculateDelay 2 (example_retry_config\<lparr>jitterFactor := 0\<rparr>) (3 / 4) = 4000
   \<and> calculateDelay 10 (example_retry_config\<lparr>jitterFactor := 0\<rparr>) (3 / 4) = 30000"
  using calculateDelay_without_jitter [of "example_retry_config\<lparr>jitterFactor := 0\<rparr>" 2 "3 / 4"]
    calculateDelay_without_jitter [of "example_retry_config\<lparr>jitterFactor := 0\<rparr>" 10 "3 / 4"]
  by (simp add: example_retry_config_def)

text \<open>
  With a jitter factor of 0 the random sample plays no part, whatever the configuration:
  the delay is the capped base, clamped at zero.
\<close>

lemma calculateDelay_no_randomness:
  assumes "jitterFactor config = 0"
  shows "calculateDelay i config u =
         max 0 (min (initialDelayMs config * backoffMultiplier config ^ i) (maxDelayMs config))"
  using assms by (simp add: calculateDelay_def uniform_random_def Let_def)

text \<open>
  With a jitter factor \<open>j\<close> between 0 and 1 and a sample between 0 and 1, the delay lies
  between \<open>base * (1 - j)\<close> and \<open>base * (1 + j)\<close>, where \<open>base\<close> is the capped value.
\<close>

lemma calculateDelay_jitter_bounds:
  fixes config :: retry_config and i :: nat and u :: rat
  assumes "0 \<le> jitterFactor config" and "jitterFactor config \<le> 1"
    and "0 \<le> u" and "u \<le> 1"
    and "0 \<le> initialDelayMs config" and "0 \<le> maxDelayMs config" and "0 \<le> backoffMultiplier config"
  defines "base \<equiv> min (initialDelayMs config * backoffMultiplier config ^ i) (maxDelayMs config)"
  shows "base * (1 - jitterFactor config) \<le> calculateDelay i config u"
    and "calculateDelay i config u \<le> base * (1 + jitterFactor config)"
proof -
  define y where "y = jitterFactor config * base"
  define x where "x = u * (2 * y)"
  have b: "0 \<le> base"
    unfolding base_def using assms(5-7) by (rule capped_delay_nonneg)
  have y: "0 \<le> y" unfolding y_def using assms(1) b by simp
  have d: "calculateDelay i config u = max 0 (base - y + x)"
    by (simp add: calculateDelay_def uniform_random_def Let_def base_def x_def y_def algebra_simps)
  have lo: "0 \<le> x" unfolding x_def using assms(3) y by simp
  have "u * (2 * y) \<le> 1 * (2 * y)"
    using assms(4) y by (intro mult_right_mono) simp_all
  then have hi: "x \<le> 2 * y" unfolding x_def by simp
  have e1: "base * (1 - jitterFactor config) = base - y" by (simp add: y_def algebra_simps)
  have e2: "base * (1 + jitterFactor config) = base + y" by (simp add: y_def algebra_simps)
  show "base * (1 - jitterFactor config) \<le> calculateDelay i config u"
    unfolding d e1 using lo by linarith
  show "calculateDelay i config u \<le> base * (1 + jitterFactor config)"
    unfolding d e2 using hi b y by linarith
qed

subsection \<open>The retry controller\<close>

text \<open>One step of the controller, for each way an attempt can end.\<close>

lemma retry_from_success:
  assumes "fn a = Inr v"
  shows "retry_from fn config rnd a = \<lparr>outcome = Inr v, invocations = 1, waits = []\<rparr>"
  using assms by (simp add: retry_from.simps [of fn config rnd a])

lemma retry_from_stop:
  assumes "fn a = Inl e" "\<not> isRetryableError e \<or> maxRetries config \<le> a"
  shows "retry_from fn config rnd a = \<lparr>outcome = Inl e, invocations = 1, waits = []\<rparr>"
  using assms by (auto simp add: retry_from.simps [of fn config rnd a])

lemma retry_from_wait_step:
  assumes "fn a = Inl e" "isRetryableError e" "a < maxRetries config"
  shows "waits (retry_from fn config rnd a) =
         retry_delay e a config (rnd a) # waits (retry_from fn config rnd (Suc a))"
    and "invocations (retry_from fn config rnd a) = Suc (invocations (retry_from fn config rnd (Suc a)))"
    and "outcome (retry_from fn config rnd a) = outcome (retry_from fn config rnd (Suc a))"
  using assms by (simp_all add: retry_from.simps [of fn config rnd a] Let_def)

lemma rate_limited_retryable: "kind e = RateLimited \<Longrightarrow> isRetryableError e"
  by (simp add: isRetryableError_def)

text \<open>
  While the attempts fail with retryable errors and retries remain, each adds one wait: after
  \<open>k\<close> such attempts the list of waits is \<open>k\<close> waits followed by those of the rest of the run.
\<close>

lemma waits_shift:
  assumes "\<forall>j<k. \<exists>e'. fn (a + j) = Inl e' \<and> isRetryableError e'"
    and "a + k \<le> maxRetries config"
  shows "\<exists>ds. length ds = k \<and>
           waits (retry_from fn config rnd a) = ds @ waits (retry_from fn config rnd (a + k))"
  using assms
proof (induction k arbitrary: a)
  case 0
  then show ?case by simp
next
  case (Suc k)
  from Suc.prems(1) have "\<exists>e'. fn (a + 0) = Inl e' \<and> isRetryableError e'"
    by blast
  then obtain e' where e': "fn a = Inl e'" "isRetryableError e'"
    by auto
  have lt: "a < maxRetries config" using Suc.prems(2) by simp
  have step: "waits (retry_from fn config rnd a) =
              retry_delay e' a config (rnd a) # waits (retry_from fn config rnd (Suc a))"
    using e' lt by (rule retry_from_wait_step)
  have "\<forall>j<k. \<exists>e'. fn (Suc a + j) = Inl e' \<and> isRetryableError e'"
  proof (intro allI impI)
    fix j assume "j < k"
    then have "Suc j < Suc k" by simp
    with Suc.prems(1) have "\<exists>e'. fn (a + Suc j) = Inl e' \<and> isRetryableError e'" by blast
    then show "\<exists>e'. fn (Suc a + j) = Inl e' \<and> isRetryableError e'" by simp
  qed
  moreover have "Suc a + k \<le> maxRetries config" using Suc.prems(2) by simp
  ultimately obtain ds where ds: "length ds = k"
      "waits (retry_from fn config rnd (Suc a)) = ds @ waits (retry_from fn config rnd (Suc a + k))"
    using Suc.IH by blast
  have "length (retry_delay e' a config (rnd a) # ds) = Suc k" using ds(1) by simp
  moreover have "waits (retry_from fn config rnd a) =
      (retry_delay e' a config (rnd a) # ds) @ waits (retry_from fn config rnd (a + Suc k))"
    using step ds(2) by simp
  ultimately show ?case by blast
qed

text \<open>
  C3. When the attempt of index \<open>k\<close> is reached (the attempts before it failed with
  retryable errors), fails with a rate-limited error carrying a retry-after hint of \<open>h\<close>
  seconds, and a retry remains, the controller's wait number \<open>k\<close>, the one before the next
  attempt, is exactly \<open>h * 1000\<close> milliseconds, whatever the initial delay, the multiplier,
  the jitter factor and the random samples are.
\<close>

theorem retry_after_overrides_backoff:
  assumes "\<forall>j<k. \<exists>e'. fn j = Inl e' \<and> isRetryableError e'"
    and "fn k = Inl e" and "kind e = RateLimited" and "retryAfter e = Some h"
    and "k < maxRetries config"
  shows "k < length (waits (withRetry fn config rnd))
         \<and> waits (withRetry fn config rnd) ! k = of_int h * 1000"
proof -
  have "\<forall>j<k. \<exists>e'. fn (0 + j) = Inl e' \<and> isRetryableError e'"
    using assms(1) by simp
  moreover have "0 + k \<le> maxRetries config" using assms(5) by simp
  ultimately obtain ds where ds: "length ds = k"
      "waits (retry_from fn config rnd 0) = ds @ waits (retry_from fn config rnd (0 + k))"
    using waits_shift by blast
  have "waits (retry_from fn config rnd k) =
        retry_delay e k config (rnd k) # waits (retry_from fn config rnd (Suc k))"
    using assms(2) rate_limited_retryable [OF assms(3)] assms(5) by (rule retry_from_wait_step)
  moreover have "retry_delay e k config (rnd k) = of_int h * 1000"
    using assms(3,4) by (simp add: retry_delay_def)
  ultimately have "waits (withRetry fn config rnd) =
        ds @ of_int h * 1000 # waits (retry_from fn config rnd (Suc k))"
    using ds(2) by (simp add: withRetry_def)
  then show ?thesis using ds(1) by (simp add: nth_append)
qed

text \<open>
  The test of the retry-after header: a rate-limit error with a hint of 5 seconds, then
  success, with one retry allowed. The first wait is 5000 ms.
\<close>

theorem retry_after_overrides_backoff_witness:
  "waits (withRetry (\<lambda>k. if k = 0 then Inl (RateLimitError ''Rate limited'' (Some 5)) else Inr ''success'')
            (example_retry_config\<lparr>maxRetries := 1\<rparr>) (\<lambda>k. 1 / 2)) ! 0 = 5000"
  using retry_after_overrides_backoff [of 0
      "\<lambda>k. if k = 0 then Inl (RateLimitError ''Rate limited'' (Some 5)) else Inr ''success''"
      "RateLimitError ''Rate limited'' (Some 5)" 5 "example_retry_config\<lparr>maxRetries := 1\<rparr>" "\<lambda>k. 1 / 2"]
  by (simp add: RateLimitError_def AllscreenshotsError_def example_retry_config_def)

text \<open>
  An operation that fails retryably at every index up to the maximum: from attempt \<open>a\<close> the
  controller makes the remaining \<open>maxRetries - a + 1\<close> invocations and ends with the last
  error.
\<close>

lemma retry_from_exhausts:
  assumes "\<And>k. k \<le> maxRetries config \<Longrightarrow> fn k = Inl (errs k)"
    and "\<And>k. k \<le> maxRetries config \<Longrightarrow> isRetryableError (errs k)"
    and "a \<le> maxRetries config"
  shows "outcome (retry_from fn config rnd a) = Inl (errs (maxRetries config))
         \<and> invocations (retry_from fn config rnd a) = maxRetries config - a + 1
         \<and> length (waits (retry_from fn config rnd a)) = maxRetries config - a"
  using assms(3)
proof (induction "maxRetries config - a" arbitrary: a)
  case 0
  then have a: "a = maxRetries config" by simp
  have "retry_from fn config rnd a = \<lparr>outcome = Inl (errs a), invocations = 1, waits = []\<rparr>"
    by (rule retry_from_stop) (simp_all add: a assms(1))
  then show ?case by (simp add: a)
next
  case (Suc n)
  then have lt: "a < maxRetries config" by simp
  have f: "fn a = Inl (errs a)" using Suc.prems by (rule assms(1))
  have r: "isRetryableError (errs a)" using Suc.prems by (rule assms(2))
  have n: "n = maxRetries config - Suc a" using Suc.hyps(2) by simp
  have le: "Suc a \<le> maxRetries config" using lt by simp
  note IH = Suc.hyps(1) [OF n le]
  show ?case
    using retry_from_wait_step [of fn a "errs a" config rnd] f r IH lt by simp
qed

text \<open>
  C4. For an operation that fails on every invocation with a retryable error (\<open>errs k\<close> is
  the error of invocation \<open>k\<close>) and a configuration with maximum retry count \<open>m\<close>, the
  controller invokes the operation exactly \<open>m + 1\<close> times, waits \<open>m\<close> times, and what
  the caller receives is the error of the last invocation itself.
\<close>

theorem withRetry_exhausts:
  assumes "\<forall>k. fn k = Inl (errs k) \<and> isRetryableError (errs k)"
  shows "outcome (withRetry fn config rnd) = Inl (errs (maxRetries config))
         \<and> invocations (withRetry fn config rnd) = maxRetries config + 1
         \<and> length (waits (withRetry fn config rnd)) = maxRetries config"
  using retry_from_exhausts [of config fn errs 0 rnd] assms by (simp add: withRetry_def)

text \<open>The test of exhaustion: a server error every time, two retries, three invocations.\<close>

theorem withRetry_exhausts_witness:
  "outcome (withRetry (\<lambda>k. Inl (ServerError ''Internal server error'' 500))
              (example_retry_config\<lparr>maxRetries := 2\<rparr>) (\<lambda>k. 1 / 2))
     = (Inl (ServerError ''Internal server error'' 500) :: sdk_error + string)
   \<and> invocations (withRetry (\<lambda>k. Inl (ServerError ''Internal server error'' 500) :: sdk_error + string)
              (example_retry_config\<lparr>maxRetries := 2\<rparr>) (\<lambda>k. 1 / 2)) = 3"
  using withRetry_exhausts [of "\<lambda>k. Inl (ServerError ''Internal server error'' 500) :: sdk_error + string"
      "\<lambda>k. ServerError ''Internal server error'' 500" "example_retry_config\<lparr>maxRetries := 2\<rparr>" "\<lambda>k. 1 / 2"]
  by (simp add: isRetryableError_def ServerError_def AllscreenshotsError_def example_retry_config_def)

text \<open>
  C5. The retryability predicate is true exactly for the kinds rate_limited, server,
  network and timeout, and false exactly for validation, authentication, not_found,
  quota_exceeded and unknown; and an operation whose first invocation fails with a
  non-retryable error is invoked exactly once, with no wait, and that error is what the
  caller receives, whatever the configuration.
\<close>

theorem non_retryable_is_terminal:
  "isRetryableError e = (kind e \<in> {RateLimited, Server, Network, Timeout})
   \<and> (\<not> isRetryableError e) = (kind e \<in> {Validation, Authentication, NotFound, QuotaExceeded, Unknown})
   \<and> (fn 0 = Inl e \<and> \<not> isRetryableError e \<longrightarrow>
        withRetry fn config rnd = \<lparr>outcome = Inl e, invocations = 1, waits = []\<rparr>)"
proof -
  have "isRetryableError e = (kind e \<in> {RateLimited, Server, Network, Timeout})"
    by (cases "kind e") (simp_all add: isRetryableError_def)
  moreover have "(\<not> isRetryableError e) = (kind e \<in> {Validation, Authentication, NotFound, QuotaExceeded, Unknown})"
    by (cases "kind e") (simp_all add: isRetryableError_def)
  moreover have "fn 0 = Inl e \<and> \<not> isRetryableError e \<longrightarrow>
        withRetry fn config rnd = \<lparr>outcome = Inl e, invocations = 1, waits = []\<rparr>"
    by (simp add: withRetry_def retry_from_stop)
  ultimately show ?thesis by blast
qed

text \<open>The test of a validation error with three retries allowed: one invocation.\<close>

theorem non_retryable_is_terminal_witness:
  "withRetry (\<lambda>k. Inl (ValidationError ''Invalid'' None) :: sdk_error + string)
       (example_retry_config\<lparr>maxRetries := 3\<rparr>) (\<lambda>k. 1 / 2)
     = \<lparr>outcome = Inl (ValidationError ''Invalid'' None), invocations = 1, waits = []\<rparr>"
  using non_retryable_is_terminal [of "ValidationError ''Invalid'' None"
      "\<lambda>k. Inl (ValidationError ''Invalid'' None) :: sdk_error + string"
      "example_retry_config\<lparr>maxRetries := 3\<rparr>" "\<lambda>k. 1 / 2"]
  by (simp add: ValidationError_def AllscreenshotsError_def)

text \<open>
  The remaining test of the controller in the repository: a server error, then success,
  with three retries allowed, is two invocations and the value.
\<close>

lemma withRetry_retries_then_succeeds:
  "outcome (withRetry (\<lambda>k. if k = 0 then Inl (ServerError ''Internal server error'' 500) else Inr ''success'')
              (example_retry_config\<lparr>maxRetries := 3\<rparr>) rnd) = Inr ''success''
   \<and> invocations (withRetry (\<lambda>k. if k = 0 then Inl (ServerError ''Internal server error'' 500) else Inr ''success'')
              (example_retry_config\<lparr>maxRetries := 3\<rparr>) rnd) = 2"
proof -
  let ?fn = "\<lambda>k::nat. if k = 0 then Inl (ServerError ''Internal server error'' 500) else Inr ''success''"
  let ?c = "example_retry_config\<lparr>maxRetries := 3\<rparr>"
  have f0: "?fn 0 = Inl (ServerError ''Internal server error'' 500)" by simp
  have r: "isRetryableError (ServerError ''Internal server error'' 500)"
    by (simp add: isRetryableError_def ServerError_def AllscreenshotsError_def)
  have lt: "0 < maxRetries ?c" by simp
  have f1: "?fn (Suc 0) = Inr ''success''" by simp
  have s: "retry_from ?fn ?c rnd (Suc 0) = \<lparr>outcome = Inr ''success'', invocations = 1, waits = []\<rparr>"
    using f1 by (rule retry_from_success)
  show ?thesis
    using retry_from_wait_step(2,3) [of ?fn 0 "ServerError ''Internal server error'' 500" ?c rnd] f0 r lt s
    by (simp add: withRetry_def)
qed

subsection \<open>The request executor\<close>

lemma caught_not_sdk:
  assumes "\<not> is_sdk_error t"
  shows "kind (caught c t) = (if aborted t then Timeout else Network)"
    and "statusCode (caught c t) = None"
  using assms by (cases t; simp add: error_defs)+

text \<open>
  C6. When the \<^verbatim>\<open>fetch\<close> of an attempt rejects (and what it rejects with is not an SDK
  error, which \<^verbatim>\<open>fetch\<close> never produces), the attempt fails with the error the
  \<^verbatim>\<open>catch\<close> block makes of it: of the timeout kind when the rejection is the abort that
  the timeout timer caused, of the network kind for every other rejection, never both, and
  in both cases without a status code.
\<close>

theorem transport_failure_classification:
  assumes "fetch (build_url c path options) (request_init JSON_stringify c method options) = Rejected t"
    and "\<not> is_sdk_error t"
  shows "execute P JSON_stringify fetch c method path options = Inl (caught c t)
         \<and> kind (caught c t) = (if aborted t then Timeout else Network)
         \<and> statusCode (caught c t) = None"
proof -
  have "try_block P options (Rejected t) = Inl t"
    by (simp add: try_block_def)
  then have "execute P JSON_stringify fetch c method path options = Inl (caught c t)"
    using assms(1) by (simp add: execute_def)
  then show ?thesis
    using caught_not_sdk [OF assms(2)] by simp
qed

text \<open>An aborted request and a failed connection, on the client of the tests.\<close>

theorem transport_failure_classification_witness:
  "execute null_platform id (\<lambda>u i. Rejected (ThrownError ''AbortError'' ''This operation was aborted''))
       test_client ''GET'' ''/v1/usage'' no_options
     = Inl (caught test_client (ThrownError ''AbortError'' ''This operation was aborted''))
   \<and> kind (caught test_client (ThrownError ''AbortError'' ''This operation was aborted'')) = Timeout
   \<and> statusCode (caught test_client (ThrownError ''AbortError'' ''This operation was aborted'')) = None
   \<and> execute null_platform id (\<lambda>u i. Rejected (ThrownError ''TypeError'' ''fetch failed''))
       test_client ''GET'' ''/v1/usage'' no_options
     = Inl (caught test_client (ThrownError ''TypeError'' ''fetch failed''))
   \<and> kind (caught test_client (ThrownError ''TypeError'' ''fetch failed'')) = Network
   \<and> statusCode (caught test_client (ThrownError ''TypeError'' ''fetch failed'')) = None"
  using transport_failure_classification [of
      "\<lambda>u i. Rejected (ThrownError ''AbortError'' ''This operation was aborted'')"
      test_client "''/v1/usage''" no_options id "''GET''"
      "ThrownError ''AbortError'' ''This operation was aborted''" null_platform]
    transport_failure_classification [of
      "\<lambda>u i. Rejected (ThrownError ''TypeError'' ''fetch failed'')"
      test_client "''/v1/usage''" no_options id "''GET''"
      "ThrownError ''TypeError'' ''fetch failed''" null_platform]
  by simp

text \<open>The two errors themselves, with the messages the \<^verbatim>\<open>catch\<close> block composes.\<close>

lemma caught_examples:
  "caught test_client (ThrownError ''AbortError'' ''This operation was aborted'')
     = TimeoutError ''Request timed out after 60000ms''"
  "caught test_client (ThrownError ''TypeError'' ''fetch failed'')
     = NetworkError ''Network error: fetch failed''"
  "caught test_client (ThrownError ''TypeError'' ''terminated'')
     = NetworkError ''Unknown network error occurred''"
  by (simp_all add: test_client_def show_int_def show_nat.simps digit_char_def)

text \<open>
  C7, as amended. Every request the executor hands to \<^verbatim>\<open>fetch\<close> carries exactly three
  headers: the credential under \<^verbatim>\<open>X-API-Key\<close>; \<^verbatim>\<open>Accept\<close>, which is
  \<^verbatim>\<open>image/*,application/pdf\<close> in binary mode and \<^verbatim>\<open>application/json\<close> otherwise; and
  \<^verbatim>\<open>Content-Type: application/json\<close>, on every request, whether or not it has a body.
  The body sent is the serialised body of the options when there is one, and none
  otherwise.
\<close>

theorem request_headers_sent:
  "map_of (init_headers (request_init JSON_stringify c method options)) ''X-API-Key'' = Some (apiKey c)
   \<and> map_of (init_headers (request_init JSON_stringify c method options)) ''Accept''
       = Some (if opt_returnBinary options = Some True then ''image/*,application/pdf''
               else ''application/json'')
   \<and> map_of (init_headers (request_init JSON_stringify c method options)) ''Content-Type''
       = Some ''application/json''
   \<and> map fst (init_headers (request_init JSON_stringify c method options))
       = [''X-API-Key'', ''Content-Type'', ''Accept'']
   \<and> init_body (request_init JSON_stringify c method options)
       = map_option JSON_stringify (opt_body options)"
  by (simp add: request_init_def request_headers_def)

text \<open>The binary request of the header test, with a body.\<close>

theorem request_headers_sent_witness:
  "map_of (init_headers (request_init id test_client ''POST''
       (no_options\<lparr>opt_body := Some ''{}'', opt_returnBinary := Some True\<rparr>))) ''Accept''
     = Some ''image/*,application/pdf''
   \<and> map_of (init_headers (request_init id test_client ''POST''
       (no_options\<lparr>opt_body := Some ''{}'', opt_returnBinary := Some True\<rparr>))) ''X-API-Key''
     = Some ''test-key''"
  using request_headers_sent [of id test_client "''POST''"
      "no_options\<lparr>opt_body := Some ''{}'', opt_returnBinary := Some True\<rparr>"]
  by (simp add: test_client_def)

text \<open>
  C7 as the design document states it fails on a request without a body: it has no body
  and still carries the content-type header.
\<close>

theorem content_type_without_body_counterexample:
  "init_body (request_init id test_client ''GET'' no_options) = None
   \<and> map_of (init_headers (request_init id test_client ''GET'' no_options)) ''Content-Type''
       = Some ''application/json''"
  by (simp add: request_init_def request_headers_def no_options_def)

subsection \<open>Configuration and construction\<close>

text \<open>
  C8, where the code departs from it. A base address given to the constructor directly is
  stored with its trailing slash and the request URL has a double slash; the same address
  given through the builder is stored without it.
\<close>

theorem constructor_keeps_trailing_slash:
  "new_AllscreenshotsClient example_retry_config None
       (empty_config\<lparr>cfg_apiKey := Some ''test-key'', cfg_baseUrl := Some ''https://custom.api.com/''\<rparr>)
     = Inr (test_client\<lparr>baseUrl := ''https://custom.api.com/'', autoRetry := True\<rparr>)
   \<and> href (build_url (test_client\<lparr>baseUrl := ''https://custom.api.com/'', autoRetry := True\<rparr>)
        ''/v1/usage'' no_options)
     = ''https://custom.api.com//v1/usage''
   \<and> build example_retry_config None
       (withBaseUrl ''https://custom.api.com/'' (withApiKey ''test-key'' empty_config))
     = Inr (test_client\<lparr>baseUrl := ''https://custom.api.com'', autoRetry := True\<rparr>)"
  by (simp add: new_AllscreenshotsClient_def build_def empty_config_def test_client_def merge_retry_def
      DEFAULT_CONFIG_timeout_def DEFAULT_CONFIG_autoRetry_def build_url_def withBaseUrl_def
      withApiKey_def strip_trailing_slashes_def)

text \<open>
  The builder's half of C8 holds in general: what \<^verbatim>\<open>withBaseUrl\<close> stores is the address
  without its final run of slashes, and a client built right after it has a base address
  that does not end in a slash.
\<close>

lemma strip_trailing_slashes_no_slash:
  "strip_trailing_slashes u = [] \<or> last (strip_trailing_slashes u) \<noteq> CHR ''/''"
proof (cases "dropWhile (\<lambda>c. c = CHR ''/'') (rev u)")
  case Nil
  then show ?thesis by (simp add: strip_trailing_slashes_def)
next
  case (Cons x xs)
  then have "x \<noteq> CHR ''/''"
    by (simp add: dropWhile_eq_Cons_conv)
  then show ?thesis using Cons by (simp add: strip_trailing_slashes_def)
qed

lemma takeWhile_same_replicate:
  "takeWhile (\<lambda>c. c = a) xs = replicate (length (takeWhile (\<lambda>c. c = a) xs)) a"
  by (induction xs) simp_all

lemma strip_trailing_slashes_prefix:
  "u = strip_trailing_slashes u
         @ replicate (length (takeWhile (\<lambda>c. c = CHR ''/'') (rev u))) CHR ''/''"
proof -
  have "rev u = takeWhile (\<lambda>c. c = CHR ''/'') (rev u) @ dropWhile (\<lambda>c. c = CHR ''/'') (rev u)"
    by simp
  then have "rev (rev u) = rev (dropWhile (\<lambda>c. c = CHR ''/'') (rev u))
      @ rev (takeWhile (\<lambda>c. c = CHR ''/'') (rev u))"
    by (metis rev_append)
  moreover have "rev (takeWhile (\<lambda>c. c = CHR ''/'') (rev u))
      = replicate (length (takeWhile (\<lambda>c. c = CHR ''/'') (rev u))) CHR ''/''"
    using takeWhile_same_replicate [of "CHR ''/''" "rev u"] by (metis rev_replicate)
  ultimately show ?thesis by (simp add: strip_trailing_slashes_def)
qed

lemma builder_baseUrl_no_trailing_slash:
  assumes "build d env (withBaseUrl u config) = Inr c"
  shows "baseUrl c \<noteq> [] \<and> last (baseUrl c) \<noteq> CHR ''/''"
proof -
  have b: "baseUrl c = or_else (Some (strip_trailing_slashes u)) DEFAULT_CONFIG_baseUrl"
    using assms
    by (auto simp add: build_def new_AllscreenshotsClient_def withBaseUrl_def Let_def split: if_splits)
  show ?thesis
  proof (cases "strip_trailing_slashes u = []")
    case True
    then show ?thesis using b by (simp add: DEFAULT_CONFIG_baseUrl_def)
  next
    case False
    then show ?thesis using b strip_trailing_slashes_no_slash [of u] by simp
  qed
qed

text \<open>
  C9, as amended. When neither the configuration nor the environment supplies a key (each
  is undefined or empty), construction fails, and it fails with an
  \<^verbatim>\<open>AuthenticationError\<close>: an error of the authentication kind of the request failures,
  with status 401 and code \<^verbatim>\<open>AUTHENTICATION_ERROR\<close>, told from a request-time one by its
  fixed message only.
\<close>

theorem missing_key_fails_at_construction:
  assumes "\<not> truthy (cfg_apiKey config)" and "\<not> truthy env"
  shows "new_AllscreenshotsClient d env config = Inl (AuthenticationError API_KEY_REQUIRED)
         \<and> kind (AuthenticationError API_KEY_REQUIRED) = Authentication
         \<and> statusCode (AuthenticationError API_KEY_REQUIRED) = Some 401
         \<and> errorCode (AuthenticationError API_KEY_REQUIRED) = Some ''AUTHENTICATION_ERROR''"
proof -
  have "or_else (cfg_apiKey config) (or_else env []) = []"
    using assms by (cases "cfg_apiKey config"; cases env) simp_all
  then show ?thesis
    by (simp add: new_AllscreenshotsClient_def error_defs)
qed

text \<open>\<^verbatim>\<open>new AllscreenshotsClient()\<close> with the environment variable unset.\<close>

theorem missing_key_fails_at_construction_witness:
  "new_AllscreenshotsClient example_retry_config None empty_config
     = Inl (AuthenticationError API_KEY_REQUIRED)"
  using missing_key_fails_at_construction [of empty_config None example_retry_config]
  by (simp add: empty_config_def)

text \<open>
  C9 as the design document states it fails: the error of a construction without a key is
  the very error the classifier returns for a 401 response whose body is the same text, an
  error of the authentication kind.
\<close>

theorem construction_error_is_authentication_counterexample:
  "new_AllscreenshotsClient example_retry_config None empty_config
     = Inl (parseApiError 401 (BString API_KEY_REQUIRED) None)
   \<and> kind (parseApiError 401 (BString API_KEY_REQUIRED) None) = Authentication"
  by (simp add: new_AllscreenshotsClient_def empty_config_def parseApiError_def error_defs)

text \<open>
  A client that exists has a key that is not empty: the missing key cannot show at request
  time.
\<close>

lemma client_has_key:
  "new_AllscreenshotsClient d env config = Inr c \<Longrightarrow> apiKey c \<noteq> []"
  by (auto simp add: new_AllscreenshotsClient_def Let_def split: if_splits)

text \<open>
  C10. A configured key that is the empty string is treated as absent: construction does
  what it does with no configured key, that is, it takes the key of the environment when
  that is not empty and throws otherwise. A configured key that is not empty is the
  client's key whatever the environment holds.
\<close>

theorem empty_configured_key_is_absent:
  "new_AllscreenshotsClient d env (config\<lparr>cfg_apiKey := Some []\<rparr>)
     = new_AllscreenshotsClient d env (config\<lparr>cfg_apiKey := None\<rparr>)
   \<and> (case new_AllscreenshotsClient d env (config\<lparr>cfg_apiKey := Some []\<rparr>) of
        Inl e \<Rightarrow> \<not> truthy env \<and> e = AuthenticationError API_KEY_REQUIRED
      | Inr c \<Rightarrow> truthy env \<and> env = Some (apiKey c))
   \<and> (k \<noteq> [] \<longrightarrow>
        (case new_AllscreenshotsClient d env (config\<lparr>cfg_apiKey := Some k\<rparr>) of
           Inl e \<Rightarrow> False
         | Inr c \<Rightarrow> apiKey c = k))"
  by (cases env) (simp_all add: new_AllscreenshotsClient_def Let_def)

text \<open>An empty configured key beside an environment key, and a configured key beside it.\<close>

theorem empty_configured_key_is_absent_witness:
  "new_AllscreenshotsClient example_retry_config (Some ''env-key'') (empty_config\<lparr>cfg_apiKey := Some []\<rparr>)
     = new_AllscreenshotsClient example_retry_config (Some ''env-key'') (empty_config\<lparr>cfg_apiKey := None\<rparr>)
   \<and> (case new_AllscreenshotsClient example_retry_config (Some ''env-key'')
             (empty_config\<lparr>cfg_apiKey := Some ''config-key''\<rparr>) of
         Inl e \<Rightarrow> False
       | Inr c \<Rightarrow> apiKey c = ''config-key'')"
  using empty_configured_key_is_absent [of example_retry_config "Some ''env-key''" empty_config "''config-key''"]
  by simp

lemma empty_configured_key_examples:
  "new_AllscreenshotsClient example_retry_config (Some ''env-key'') (empty_config\<lparr>cfg_apiKey := Some []\<rparr>)
     = Inr (test_client\<lparr>apiKey := ''env-key'', autoRetry := True\<rparr>)"
  "new_AllscreenshotsClient example_retry_config (Some []) (empty_config\<lparr>cfg_apiKey := Some []\<rparr>)
     = Inl (AuthenticationError API_KEY_REQUIRED)"
  by (simp_all add: new_AllscreenshotsClient_def empty_config_def test_client_def merge_retry_def
      DEFAULT_CONFIG_timeout_def DEFAULT_CONFIG_autoRetry_def)

end
